theory Spec2Isabelle
  imports Main "HOL-Library.Word"
begin

unbundle bit_operations_syntax

section \<open>Native types\<close>

text \<open>
  The C types of \<^verbatim>\<open>gocl-kernel.c\<close> on an LP64 little-endian platform: \<^verbatim>\<open>gsize\<close> is a
  64-bit unsigned integer, \<^verbatim>\<open>guint\<close>, \<^verbatim>\<open>cl_uint\<close> and \<^verbatim>\<open>cl_int\<close> are 32 bits wide,
  \<^verbatim>\<open>guint8\<close> is one byte. The OpenCL handles (\<^verbatim>\<open>cl_kernel\<close>, \<^verbatim>\<open>cl_event\<close>, ...) and
  host pointers are opaque to this layer and are modelled as addresses.
\<close>

type_synonym gsize = "64 word"
type_synonym guint = "32 word"
type_synonym guint8 = "8 word"
type_synonym cl_int = "32 word"
type_synonym cl_uint = "32 word"

type_synonym cl_kernel = nat
type_synonym cl_program = nat
type_synonym cl_event = nat
type_synonym cl_command_queue = nat
type_synonym gpointer = nat

definition CL_SUCCESS :: cl_int where
  "CL_SUCCESS = 0"

text \<open>\<^verbatim>\<open>sizeof (cl_uint)\<close>: OpenCL fixes \<^verbatim>\<open>cl_uint\<close> at 32 bits, four bytes.\<close>

definition sizeof_cl_uint :: gsize where
  "sizeof_cl_uint = 4"

section \<open>The kernel object\<close>

text \<open>
  \<^verbatim>\<open>typedef gsize WorkSize[3]\<close>: an array of exactly three slots. The source only ever
  indexes it with the constants 0, 1 and 2, so the three slots are three fields.
\<close>

record WorkSize =
  idx0 :: gsize
  idx1 :: gsize
  idx2 :: gsize

text \<open>\<^verbatim>\<open>struct _GoclKernelPrivate\<close>. The two pointers are \<open>None\<close> when \<^verbatim>\<open>NULL\<close>.\<close>

record GoclKernelPrivate =
  kernel :: cl_kernel
  name :: "string option"
  program :: "cl_program option"
  global_work_size :: WorkSize
  local_work_size :: WorkSize
  work_dim :: guint8

text \<open>
  A \<^verbatim>\<open>GoclKernel *\<close> as the public functions receive it: \<open>Some priv\<close> is an instance
  for which \<^verbatim>\<open>GOCL_IS_KERNEL\<close> holds, \<open>None\<close> is anything else (\<^verbatim>\<open>NULL\<close> or an
  object of another type). The functions mutate the instance in place; the model
  returns the instance as it is after the call.
\<close>

type_synonym GoclKernel = "GoclKernelPrivate option"

section \<open>Errors, queues, devices and events\<close>

text \<open>
  The kernel code calls into \<^verbatim>\<open>gocl-error.c\<close>, \<^verbatim>\<open>gocl-queue.c\<close>, \<^verbatim>\<open>gocl-device.c\<close> and
  \<^verbatim>\<open>gocl-event.c\<close>, which are not part of the code verified here. What the kernel code
  needs from them is modelled from the specification, each definition saying so.
\<close>

text \<open>
  Modelled from the spec: the structured error (\<^verbatim>\<open>GError\<close>) of section 6, "carrying a
  numeric code (mirroring the native backend's error codes) and a human-readable
  message". The message is a function of the code in the absent \<^verbatim>\<open>gocl-error.c\<close>; only
  the code is kept.
\<close>

datatype GError = GError (error_code: cl_int)

text \<open>
  Modelled from the spec: \<^verbatim>\<open>gocl_error_check_opencl_internal\<close> and
  \<^verbatim>\<open>gocl_error_check_opencl\<close> (section 7, native backend errors: "any failure code
  returned by the underlying submission/argument-binding/wait primitives; propagated
  verbatim as a structured error with the native code preserved"). Both answer
  whether the code is an error; the second also fills the \<^verbatim>\<open>GError **\<close> it is given.
\<close>

definition gocl_error_check_opencl_internal :: "cl_int \<Rightarrow> bool" where
  "gocl_error_check_opencl_internal err_code = (err_code \<noteq> CL_SUCCESS)"

definition gocl_error_check_opencl :: "cl_int \<Rightarrow> GError option \<Rightarrow> bool \<times> GError option" where
  "gocl_error_check_opencl err_code error =
     (if err_code = CL_SUCCESS then (False, error) else (True, Some (GError err_code)))"

text \<open>
  Modelled from the spec: the queue and the device (section 6, "supplies, per device,
  a default ExecutionQueue ...; must report failure (absent queue) distinctly"). A
  queue wraps a native command queue; a device has a default queue or none, and
  \<^verbatim>\<open>gocl_device_get_default_queue\<close> returns \<^verbatim>\<open>NULL\<close> (\<open>None\<close>) when it has none.
\<close>

record GoclQueue =
  native_queue :: cl_command_queue

record GoclDevicePrivate =
  default_queue :: "GoclQueue option"

type_synonym GoclDevice = "GoclDevicePrivate option"

definition gocl_queue_get_queue :: "GoclQueue \<Rightarrow> cl_command_queue" where
  "gocl_queue_get_queue q = native_queue q"

definition gocl_device_get_default_queue :: "GoclDevicePrivate \<Rightarrow> GoclQueue option" where
  "gocl_device_get_default_queue dev = default_queue dev"

text \<open>
  Modelled from the spec: the completion token (\<^verbatim>\<open>GoclEvent\<close>, section 3): an outcome
  state, the queue it belongs to, the native completion handle once attached, "a
  resolver entry point" to be invoked exactly once, and the snapshot of the
  dependency list it was created with. The only function of type
  \<^verbatim>\<open>GoclEventResolverFunc\<close> in play is the token's own resolver entry point.
\<close>

datatype outcome = Pending | Resolved_Success | Resolved_Error GError

datatype GoclEventResolverFunc = Resolve

datatype GoclEvent =
  GoclEvent (ev_outcome: outcome) (ev_queue: "GoclQueue option") (ev_event: "cl_event option")
    (ev_resolver_func: "GoclEventResolverFunc option") (ev_event_wait_list: "GoclEvent list")

section \<open>What a call does besides returning\<close>

text \<open>
  Every call into GLib's warning machinery, into the OpenCL driver and into the event
  object is recorded, in order, in the list of effects that the model of each function
  returns next to its result. \<open>Critical\<close> is the report of a failed
  \<^verbatim>\<open>g_return_if_fail\<close> / \<^verbatim>\<open>g_return_val_if_fail\<close>, which logs the violated condition
  and returns at once. Releasing the transient wait-handle array (\<^verbatim>\<open>g_free\<close>) is
  not recorded.
\<close>

record enqueue_args =
  command_queue :: cl_command_queue
  kernel_arg :: cl_kernel
  work_dim_arg :: cl_uint
  global_work_offset :: "WorkSize option"
  global_work_size_arg :: "WorkSize option"
  local_work_size_arg :: "WorkSize option"
  num_events_in_wait_list :: cl_uint
  event_wait_list_arg :: "cl_event list option"

datatype effect =
    Critical string
  | SetKernelArg cl_kernel cl_uint gsize gpointer
  | EnqueueNDRangeKernel enqueue_args
  | WaitForEvents "cl_event list"
  | ReleaseEvent cl_event
  | ResolverCall GoclEventResolverFunc GoclEvent "GError option"
  | IdleUnref "GoclEvent option"

text \<open>
  The OpenCL driver is outside this code: what each primitive answers is a parameter.
  \<^verbatim>\<open>clEnqueueNDRangeKernel\<close> answers with an error code and the completion handle it
  stores through its last argument.
\<close>

record opencl =
  clCreateKernel :: "cl_program option \<Rightarrow> string option \<Rightarrow> cl_kernel \<times> cl_int"
  clSetKernelArg :: "cl_kernel \<Rightarrow> cl_uint \<Rightarrow> gsize \<Rightarrow> gpointer \<Rightarrow> cl_int"
  clEnqueueNDRangeKernel :: "enqueue_args \<Rightarrow> cl_int \<times> cl_event"
  clWaitForEvents :: "cl_event list \<Rightarrow> cl_int"

text \<open>
  Modelled from the spec: the operations of section 4.1. \<open>gocl_event_new\<close> is
  \<^verbatim>\<open>g_object_new (GOCL_TYPE_EVENT, "queue", q, ["event", e,] NULL)\<close>, that is
  \<open>create_pending\<close> followed by \<open>attach_native_signal\<close> when a handle is given: a
  Pending token that still holds its resolver entry point.
  \<open>gocl_event_steal_resolver_func\<close> "detaches and returns the resolver function,
  clearing it from the token". Invoking the resolver entry point is \<open>resolve\<close>: on an
  already resolved token it is "a programming-error condition (reported, not silently
  ignored)", otherwise the state flips to the outcome, an error outcome when an
  error is passed.
\<close>

definition gocl_event_new :: "GoclQueue option \<Rightarrow> cl_event option \<Rightarrow> GoclEvent" where
  "gocl_event_new q e = GoclEvent Pending q e (Some Resolve) []"

definition gocl_event_set_event_wait_list :: "GoclEvent \<Rightarrow> GoclEvent list \<Rightarrow> GoclEvent" where
  "gocl_event_set_event_wait_list ev l =
     GoclEvent (ev_outcome ev) (ev_queue ev) (ev_event ev) (ev_resolver_func ev) l"

definition gocl_event_steal_resolver_func ::
  "GoclEvent \<Rightarrow> GoclEventResolverFunc option \<times> GoclEvent" where
  "gocl_event_steal_resolver_func ev =
     (ev_resolver_func ev,
      GoclEvent (ev_outcome ev) (ev_queue ev) (ev_event ev) None (ev_event_wait_list ev))"

definition gocl_event_resolve :: "GoclEvent \<Rightarrow> GError option \<Rightarrow> GoclEvent \<times> effect list" where
  "gocl_event_resolve ev error =
     (if ev_outcome ev \<noteq> Pending then (ev, [Critical ''! self->priv->already_resolved''])
      else (GoclEvent (case error of None \<Rightarrow> Resolved_Success | Some e \<Rightarrow> Resolved_Error e)
              (ev_queue ev) (ev_event ev) (ev_resolver_func ev) (ev_event_wait_list ev), []))"

fun call_resolver ::
  "GoclEventResolverFunc \<Rightarrow> GoclEvent \<Rightarrow> GError option \<Rightarrow> GoclEvent \<times> effect list" where
  "call_resolver Resolve ev error = gocl_event_resolve ev error"

text \<open>
  Modelled from the spec: \<^verbatim>\<open>gocl_event_list_to_array\<close> (section 4.2,
  \<open>to_wait_handles\<close>). It "projects each token's native completion handle into a flat
  array"; "a null/empty list maps to (no-array, 0)"; a token without a native handle
  "is a usage error". The spec does not say what is returned in the last case: the
  model reports the violation and returns no array, with the length of the list as
  count. An empty \<^verbatim>\<open>GList\<close> is the \<^verbatim>\<open>NULL\<close> pointer, so the absent and the empty
  list are the same value \<open>[]\<close>.
\<close>

fun native_handles :: "GoclEvent list \<Rightarrow> cl_event list option" where
  "native_handles [] = Some []"
| "native_handles (e # es) =
     (case ev_event e of
        None \<Rightarrow> None
      | Some h \<Rightarrow> (case native_handles es of None \<Rightarrow> None | Some hs \<Rightarrow> Some (h # hs)))"

definition g_list_length :: "'a list \<Rightarrow> guint" where
  "g_list_length l = of_nat (length l)"

definition gocl_event_list_to_array ::
  "GoclEvent list \<Rightarrow> (cl_event list option \<times> guint) \<times> effect list" where
  "gocl_event_list_to_array event_list =
     (if event_list = [] then ((None, 0), [])
      else (case native_handles event_list of
              None \<Rightarrow> ((None, g_list_length event_list), [Critical ''GOCL_IS_EVENT (node->data)''])
            | Some arr \<Rightarrow> ((Some arr, g_list_length event_list), [])))"

section \<open>Construction\<close>

text \<open>
  \<^verbatim>\<open>memset (p, 0, n)\<close> on a \<open>WorkSize\<close>: the first \<open>n\<close> bytes of the 24-byte array are
  cleared. On a little-endian machine the first \<open>k\<close> bytes of a slot are its \<open>k\<close>
  low-order bytes; slot \<open>i\<close> starts at byte \<open>8 * i\<close>, so it loses its first
  \<open>n - 8 * i\<close> bytes (none when \<open>n \<le> 8 * i\<close>: subtraction on \<open>nat\<close> stops at 0).
\<close>

definition clear_low_bytes :: "nat \<Rightarrow> gsize \<Rightarrow> gsize" where
  "clear_low_bytes k w = w AND NOT (mask (8 * k))"

definition memset_zero :: "WorkSize \<Rightarrow> nat \<Rightarrow> WorkSize" where
  "memset_zero ws n =
     \<lparr>idx0 = clear_low_bytes n (idx0 ws),
      idx1 = clear_low_bytes (n - 8) (idx1 ws),
      idx2 = clear_low_bytes (n - 16) (idx2 ws)\<rparr>"

text \<open>
  \<^verbatim>\<open>gocl_kernel_init\<close>, the instance initialiser: it sets \<^verbatim>\<open>work_dim\<close> to 1 and calls
  \<^verbatim>\<open>memset\<close> with a length of 3 (bytes) on each of the two work-size arrays.
\<close>

definition gocl_kernel_init :: "GoclKernelPrivate \<Rightarrow> GoclKernelPrivate" where
  "gocl_kernel_init priv =
     priv\<lparr>work_dim := 1,
          global_work_size := memset_zero (global_work_size priv) 3,
          local_work_size := memset_zero (local_work_size priv) 3\<rparr>"

text \<open>
  GObject allocates the instance and its private structure zero-filled
  (\<^verbatim>\<open>g_type_create_instance\<close>; the private structures "are zero-filled",
  \<^verbatim>\<open>g_type_class_add_private\<close>) before it runs the instance initialiser.
\<close>

definition zero_WorkSize :: WorkSize where
  "zero_WorkSize = \<lparr>idx0 = 0, idx1 = 0, idx2 = 0\<rparr>"

definition zero_filled :: GoclKernelPrivate where
  "zero_filled =
     \<lparr>kernel = 0, name = None, program = None,
      global_work_size = zero_WorkSize, local_work_size = zero_WorkSize,
      work_dim = 0\<rparr>"

text \<open>
  \<^verbatim>\<open>set_property\<close> for the two construct-only properties \<^verbatim>\<open>PROP_PROGRAM\<close> and
  \<^verbatim>\<open>PROP_NAME\<close>.
\<close>

datatype property = PROP_PROGRAM cl_program | PROP_NAME string

fun set_property :: "GoclKernelPrivate \<Rightarrow> property \<Rightarrow> GoclKernelPrivate" where
  "set_property priv (PROP_PROGRAM p) = priv\<lparr>program := Some p\<rparr>"
| "set_property priv (PROP_NAME n) = priv\<lparr>name := Some n\<rparr>"

text \<open>
  \<^verbatim>\<open>gocl_kernel_initable_init\<close>: \<^verbatim>\<open>clCreateKernel\<close> yields the native kernel and an error
  code; the kernel is stored in either case and the initialisation fails when the
  code is an error.
\<close>

definition gocl_kernel_initable_init ::
  "opencl \<Rightarrow> GoclKernelPrivate \<Rightarrow> bool \<times> GoclKernelPrivate" where
  "gocl_kernel_initable_init cl priv =
     (let (k, err_code) = clCreateKernel cl (program priv) (name priv);
          priv' = priv\<lparr>kernel := k\<rparr>
      in if fst (gocl_error_check_opencl err_code None) then (False, priv') else (True, priv'))"

text \<open>
  The life of a kernel begins with \<^verbatim>\<open>g_initable_new (GOCL_TYPE_KERNEL, ..., "program", p,
  "name", n, NULL)\<close>: zero-filled allocation, \<^verbatim>\<open>gocl_kernel_init\<close>, the two construct
  properties, then \<^verbatim>\<open>gocl_kernel_initable_init\<close>; the result is \<^verbatim>\<open>NULL\<close> when the last
  step fails.
\<close>

definition gocl_kernel_new :: "opencl \<Rightarrow> cl_program \<Rightarrow> string \<Rightarrow> GoclKernel" where
  "gocl_kernel_new cl p n =
     (let priv = set_property (set_property (gocl_kernel_init zero_filled) (PROP_PROGRAM p))
                   (PROP_NAME n);
          (ok, priv') = gocl_kernel_initable_init cl priv
      in if ok then Some priv' else None)"

section \<open>Work-size configuration\<close>

text \<open>
  \<^verbatim>\<open>gocl_kernel_set_work_dimension\<close>: two \<^verbatim>\<open>g_return_if_fail\<close> guards, then the store.
  The parameter is a \<^verbatim>\<open>guint8\<close>.
\<close>

definition gocl_kernel_set_work_dimension ::
  "GoclKernel \<Rightarrow> guint8 \<Rightarrow> GoclKernel \<times> effect list" where
  "gocl_kernel_set_work_dimension self wd =
     (case self of
        None \<Rightarrow> (self, [Critical ''GOCL_IS_KERNEL (self)''])
      | Some priv \<Rightarrow>
          if \<not> (wd > 0 \<and> wd \<le> 3)
          then (self, [Critical ''work_dim > 0 && work_dim <= 3''])
          else (Some (priv\<lparr>work_dim := wd\<rparr>), []))"

text \<open>\<^verbatim>\<open>gocl_kernel_set_global_work_size\<close> and \<^verbatim>\<open>gocl_kernel_set_local_work_size\<close>.\<close>

definition gocl_kernel_set_global_work_size ::
  "GoclKernel \<Rightarrow> gsize \<Rightarrow> gsize \<Rightarrow> gsize \<Rightarrow> GoclKernel \<times> effect list" where
  "gocl_kernel_set_global_work_size self size1 size2 size3 =
     (case self of
        None \<Rightarrow> (self, [Critical ''GOCL_IS_KERNEL (self)''])
      | Some priv \<Rightarrow>
          (Some (priv\<lparr>global_work_size :=
                   (global_work_size priv)\<lparr>idx0 := size1, idx1 := size2, idx2 := size3\<rparr>\<rparr>),
           []))"

definition gocl_kernel_set_local_work_size ::
  "GoclKernel \<Rightarrow> gsize \<Rightarrow> gsize \<Rightarrow> gsize \<Rightarrow> GoclKernel \<times> effect list" where
  "gocl_kernel_set_local_work_size self size1 size2 size3 =
     (case self of
        None \<Rightarrow> (self, [Critical ''GOCL_IS_KERNEL (self)''])
      | Some priv \<Rightarrow>
          (Some (priv\<lparr>local_work_size :=
                   (local_work_size priv)\<lparr>idx0 := size1, idx1 := size2, idx2 := size3\<rparr>\<rparr>),
           []))"

section \<open>Argument binding\<close>

text \<open>
  \<^verbatim>\<open>gocl_kernel_set_argument\<close>: one guard, then \<^verbatim>\<open>clSetKernelArg\<close> with the index, the
  size and the buffer as they came in; the result is true when the code is no error.
\<close>

definition gocl_kernel_set_argument ::
  "opencl \<Rightarrow> GoclKernel \<Rightarrow> guint \<Rightarrow> gsize \<Rightarrow> gpointer \<Rightarrow> bool \<times> effect list" where
  "gocl_kernel_set_argument cl self index sz buffer =
     (case self of
        None \<Rightarrow> (False, [Critical ''GOCL_IS_KERNEL (self)''])
      | Some priv \<Rightarrow>
          (let err_code = clSetKernelArg cl (kernel priv) index sz buffer
           in (\<not> gocl_error_check_opencl_internal err_code,
               [SetKernelArg (kernel priv) index sz buffer])))"

text \<open>
  \<^verbatim>\<open>gocl_kernel_set_argument_int32\<close>: the size is \<^verbatim>\<open>sizeof (cl_uint) * num_elements\<close>, a
  product of two \<^verbatim>\<open>gsize\<close> values (it wraps modulo \<open>2 ^ 64\<close>).
\<close>

definition gocl_kernel_set_argument_int32 ::
  "opencl \<Rightarrow> GoclKernel \<Rightarrow> guint \<Rightarrow> gsize \<Rightarrow> gpointer \<Rightarrow> bool \<times> effect list" where
  "gocl_kernel_set_argument_int32 cl self index num_elements buffer =
     gocl_kernel_set_argument cl self index (sizeof_cl_uint * num_elements) buffer"

section \<open>Running a kernel\<close>

text \<open>
  The argument list of \<^verbatim>\<open>clEnqueueNDRangeKernel\<close>, written the same way in both run
  functions: the native queue, the kernel, the work dimension (a \<^verbatim>\<open>guint8\<close> widened to
  \<^verbatim>\<open>cl_uint\<close>), no global offset, each work-size array or \<^verbatim>\<open>NULL\<close> when its first slot
  is 0, then the count and the array of events to wait for.
\<close>

definition submission ::
  "GoclKernelPrivate \<Rightarrow> cl_command_queue \<Rightarrow> cl_uint \<Rightarrow> cl_event list option \<Rightarrow> enqueue_args"
  where
  "submission priv q n arr =
     \<lparr>command_queue = q,
      kernel_arg = kernel priv,
      work_dim_arg = ucast (work_dim priv),
      global_work_offset = None,
      global_work_size_arg =
        (if idx0 (global_work_size priv) = 0 then None else Some (global_work_size priv)),
      local_work_size_arg =
        (if idx0 (local_work_size priv) = 0 then None else Some (local_work_size priv)),
      num_events_in_wait_list = n,
      event_wait_list_arg = arr\<rparr>"

text \<open>
  \<^verbatim>\<open>gocl_kernel_run_in_device_sync\<close>. The count passed is \<^verbatim>\<open>g_list_length
  (event_wait_list)\<close>; the length that \<^verbatim>\<open>gocl_event_list_to_array\<close> could report is not
  asked for (\<^verbatim>\<open>NULL\<close>). The value \<^verbatim>\<open>clWaitForEvents\<close> returns is not read.
\<close>

definition gocl_kernel_run_in_device_sync ::
  "opencl \<Rightarrow> GoclKernel \<Rightarrow> GoclDevice \<Rightarrow> GoclEvent list \<Rightarrow> bool \<times> effect list" where
  "gocl_kernel_run_in_device_sync cl self device event_wait_list =
     (case self of
        None \<Rightarrow> (False, [Critical ''GOCL_IS_KERNEL (self)''])
      | Some priv \<Rightarrow>
     (case device of
        None \<Rightarrow> (False, [Critical ''GOCL_IS_DEVICE (device)''])
      | Some dev \<Rightarrow>
     (case gocl_device_get_default_queue dev of
        None \<Rightarrow> (False, [])
      | Some queue \<Rightarrow>
          (let ((arr, len), fx) = gocl_event_list_to_array event_wait_list;
               q = gocl_queue_get_queue queue;
               args = submission priv q (g_list_length event_wait_list) arr;
               (err_code, event) = clEnqueueNDRangeKernel cl args
           in if gocl_error_check_opencl_internal err_code
              then (False, fx @ [EnqueueNDRangeKernel args])
              else (True, fx @ [EnqueueNDRangeKernel args,
                                WaitForEvents [event], ReleaseEvent event])))))"

text \<open>
  \<^verbatim>\<open>gocl_kernel_run_in_device\<close>. The wait list is marshalled first; without a default
  queue control jumps to \<^verbatim>\<open>out\<close> with \<^verbatim>\<open>error\<close> and \<^verbatim>\<open>_event\<close> both still \<^verbatim>\<open>NULL\<close>.
  After the submission, a success builds the event around the native handle, stores
  the wait list and steals the resolver without using it; at \<^verbatim>\<open>out\<close>, a set \<^verbatim>\<open>error\<close>
  builds a handle-less event, steals its resolver and calls it with the error. Calling
  a \<^verbatim>\<open>NULL\<close> function pointer is a fault of the process.
\<close>

datatype fault = NullFunctionCall

definition gocl_kernel_run_in_device ::
  "opencl \<Rightarrow> GoclKernel \<Rightarrow> GoclDevice \<Rightarrow> GoclEvent list
     \<Rightarrow> fault + (GoclEvent option \<times> effect list)" where
  "gocl_kernel_run_in_device cl self device event_wait_list =
     (case self of
        None \<Rightarrow> Inr (None, [Critical ''GOCL_IS_KERNEL (self)''])
      | Some priv \<Rightarrow>
     (case device of
        None \<Rightarrow> Inr (None, [Critical ''GOCL_IS_DEVICE (device)''])
      | Some dev \<Rightarrow>
     (let ((arr, len), fx) = gocl_event_list_to_array event_wait_list
      in (case gocl_device_get_default_queue dev of
            None \<Rightarrow> Inr (None, fx @ [IdleUnref None])
          | Some queue \<Rightarrow>
              (let q = gocl_queue_get_queue queue;
                   args = submission priv q len arr;
                   (err_code, event) = clEnqueueNDRangeKernel cl args;
                   (failed, error) = gocl_error_check_opencl err_code None;
                   fx1 = fx @ [EnqueueNDRangeKernel args];
                   ev1 = (if \<not> failed
                          then Some (snd (gocl_event_steal_resolver_func
                                 (gocl_event_set_event_wait_list
                                    (gocl_event_new (Some queue) (Some event)) event_wait_list)))
                          else None)
               in (case error of
                     None \<Rightarrow> Inr (ev1, fx1 @ [IdleUnref ev1])
                   | Some e \<Rightarrow>
                       (let (resolver_func, ev2) =
                              gocl_event_steal_resolver_func (gocl_event_new (Some queue) None)
                        in (case resolver_func of
                              None \<Rightarrow> Inl NullFunctionCall
                            | Some f \<Rightarrow>
                                (let (ev3, fx2) = call_resolver f ev2 (Some e)
                                 in Inr (Some ev3,
                                         fx1 @ [ResolverCall f ev2 (Some e)] @ fx2
                                           @ [IdleUnref (Some ev3)]))))))))))"

section \<open>Reading the effects of a call\<close>

fun submissions :: "effect list \<Rightarrow> enqueue_args list" where
  "submissions [] = []"
| "submissions (EnqueueNDRangeKernel a # fx) = a # submissions fx"
| "submissions (_ # fx) = submissions fx"

fun resolver_calls :: "effect list \<Rightarrow> (GoclEventResolverFunc \<times> GError option) list" where
  "resolver_calls [] = []"
| "resolver_calls (ResolverCall f ev e # fx) = (f, e) # resolver_calls fx"
| "resolver_calls (_ # fx) = resolver_calls fx"

fun criticals :: "effect list \<Rightarrow> string list" where
  "criticals [] = []"
| "criticals (Critical m # fx) = m # criticals fx"
| "criticals (_ # fx) = criticals fx"

section \<open>Test doubles\<close>

text \<open>
  The drivers of the scenarios of section 8 of the specification: one on which every
  primitive succeeds, one whose submission primitive answers error code 5, and one
  that accepts the submission and fails the wait with
  \<^verbatim>\<open>CL_EXEC_STATUS_ERROR_FOR_EVENTS_IN_WAIT_LIST\<close> (-14).
\<close>

definition working_driver :: opencl where
  "working_driver =
     \<lparr>clCreateKernel = (\<lambda>p n. (11, CL_SUCCESS)),
      clSetKernelArg = (\<lambda>k i s b. CL_SUCCESS),
      clEnqueueNDRangeKernel = (\<lambda>a. (CL_SUCCESS, 21)),
      clWaitForEvents = (\<lambda>es. CL_SUCCESS)\<rparr>"

definition failing_submission_driver :: opencl where
  "failing_submission_driver = working_driver\<lparr>clEnqueueNDRangeKernel := (\<lambda>a. (5, 0))\<rparr>"

definition failing_wait_driver :: opencl where
  "failing_wait_driver = working_driver\<lparr>clWaitForEvents := (\<lambda>es. - 14)\<rparr>"

definition a_queue :: GoclQueue where
  "a_queue = \<lparr>native_queue = 31\<rparr>"

definition device_with_queue :: GoclDevicePrivate where
  "device_with_queue = \<lparr>default_queue = Some a_queue\<rparr>"

definition device_without_queue :: GoclDevicePrivate where
  "device_without_queue = \<lparr>default_queue = None\<rparr>"

text \<open>
  The kernel of \<^verbatim>\<open>examples/hello-world-sync.c\<close>: created, then set to two dimensions
  with global size (32, 32, 0) and local size (2, 2, 0). \<open>fresh_priv\<close> and
  \<open>hello_priv\<close> are the private structures these calls leave behind.
\<close>

definition fresh_kernel :: GoclKernel where
  "fresh_kernel = gocl_kernel_new working_driver 41 ''my_kernel''"

definition hello_kernel :: GoclKernel where
  "hello_kernel =
     fst (gocl_kernel_set_local_work_size
            (fst (gocl_kernel_set_global_work_size
                    (fst (gocl_kernel_set_work_dimension fresh_kernel 2)) 32 32 0)) 2 2 0)"

definition fresh_priv :: GoclKernelPrivate where
  "fresh_priv =
     \<lparr>kernel = 11, name = Some ''my_kernel'', program = Some 41,
      global_work_size = \<lparr>idx0 = 0, idx1 = 0, idx2 = 0\<rparr>,
      local_work_size = \<lparr>idx0 = 0, idx1 = 0, idx2 = 0\<rparr>,
      work_dim = 1\<rparr>"

definition hello_priv :: GoclKernelPrivate where
  "hello_priv =
     \<lparr>kernel = 11, name = Some ''my_kernel'', program = Some 41,
      global_work_size = \<lparr>idx0 = 32, idx1 = 32, idx2 = 0\<rparr>,
      local_work_size = \<lparr>idx0 = 2, idx1 = 2, idx2 = 0\<rparr>,
      work_dim = 2\<rparr>"

section \<open>Facts about the test doubles and the helpers\<close>

lemma fresh_kernel_eq: "fresh_kernel = Some fresh_priv"
  by (simp add: fresh_kernel_def fresh_priv_def gocl_kernel_new_def gocl_kernel_init_def
      zero_filled_def memset_zero_def clear_low_bytes_def zero_WorkSize_def
      gocl_kernel_initable_init_def working_driver_def gocl_error_check_opencl_def)

lemma hello_kernel_eq: "hello_kernel = Some hello_priv"
  by (simp add: hello_kernel_def fresh_kernel_eq fresh_priv_def hello_priv_def
      gocl_kernel_set_work_dimension_def gocl_kernel_set_global_work_size_def
      gocl_kernel_set_local_work_size_def)

lemma with_queue: "gocl_device_get_default_queue device_with_queue = Some a_queue"
  by (simp add: gocl_device_get_default_queue_def device_with_queue_def)

lemma submissions_append: "submissions (fx @ fy) = submissions fx @ submissions fy"
  by (induction fx rule: submissions.induct) simp_all

lemma resolver_calls_append:
  "resolver_calls (fx @ fy) = resolver_calls fx @ resolver_calls fy"
  by (induction fx rule: resolver_calls.induct) simp_all

lemma list_to_array_empty: "gocl_event_list_to_array [] = ((None, 0), [])"
  by (simp add: gocl_event_list_to_array_def)

lemma list_to_array_submissions: "submissions (snd (gocl_event_list_to_array l)) = []"
  by (simp add: gocl_event_list_to_array_def split: option.splits)

lemma list_to_array_resolver_calls: "resolver_calls (snd (gocl_event_list_to_array l)) = []"
  by (simp add: gocl_event_list_to_array_def split: option.splits)

lemma memset_zero_of_zero: "memset_zero zero_WorkSize n = zero_WorkSize"
  by (simp add: memset_zero_def zero_WorkSize_def clear_low_bytes_def)

lemma init_keeps_upper_slots:
  "idx1 (global_work_size (gocl_kernel_init priv)) = idx1 (global_work_size priv)
   \<and> idx2 (global_work_size (gocl_kernel_init priv)) = idx2 (global_work_size priv)"
  by (simp add: gocl_kernel_init_def memset_zero_def clear_low_bytes_def)

text \<open>The synchronous run on a device with a queue, unfolded once.\<close>

lemma run_sync_with_queue:
  assumes "gocl_device_get_default_queue dev = Some queue"
  shows "gocl_kernel_run_in_device_sync cl (Some priv) (Some dev) wait =
     (let m = gocl_event_list_to_array wait;
          args = submission priv (gocl_queue_get_queue queue) (g_list_length wait) (fst (fst m));
          r = clEnqueueNDRangeKernel cl args
      in if fst r \<noteq> CL_SUCCESS
         then (False, snd m @ [EnqueueNDRangeKernel args])
         else (True, snd m @ [EnqueueNDRangeKernel args, WaitForEvents [snd r],
                              ReleaseEvent (snd r)]))"
  using assms
  by (simp add: gocl_kernel_run_in_device_sync_def gocl_error_check_opencl_internal_def
      Let_def split: prod.splits)

lemma run_async_with_queue:
  assumes "gocl_device_get_default_queue dev = Some queue"
  shows "gocl_kernel_run_in_device cl (Some priv) (Some dev) wait =
     (let m = gocl_event_list_to_array wait;
          args = submission priv (gocl_queue_get_queue queue) (snd (fst m)) (fst (fst m));
          r = clEnqueueNDRangeKernel cl args;
          ok = GoclEvent Pending (Some queue) (Some (snd r)) None wait;
          pending = GoclEvent Pending (Some queue) None None [];
          failed = GoclEvent (Resolved_Error (GError (fst r))) (Some queue) None None []
      in if fst r = CL_SUCCESS
         then Inr (Some ok, snd m @ [EnqueueNDRangeKernel args, IdleUnref (Some ok)])
         else Inr (Some failed,
                   snd m @ [EnqueueNDRangeKernel args,
                            ResolverCall Resolve pending (Some (GError (fst r))),
                            IdleUnref (Some failed)]))"
  using assms
  by (simp add: gocl_kernel_run_in_device_def gocl_error_check_opencl_def
      gocl_event_new_def gocl_event_set_event_wait_list_def gocl_event_steal_resolver_func_def
      gocl_event_resolve_def Let_def split: prod.splits)

lemma run_async_without_queue:
  assumes "gocl_device_get_default_queue dev = None"
  shows "gocl_kernel_run_in_device cl (Some priv) (Some dev) wait =
     Inr (None, snd (gocl_event_list_to_array wait) @ [IdleUnref None])"
  using assms
  by (simp add: gocl_kernel_run_in_device_def Let_def split: prod.splits)


section \<open>Properties claimed by the specification\<close>

text \<open>
  C1. Whenever the submission primitive answers an error code, the asynchronous run
  returns a token in state Resolved-Error carrying that code, and among the effects of
  the call there is exactly one invocation of the resolver, with that error.
\<close>

theorem run_in_device_submission_error:
  assumes "gocl_device_get_default_queue dev = Some queue"
    and "gocl_event_list_to_array wait = ((arr, len), fx)"
    and "clEnqueueNDRangeKernel cl (submission priv (gocl_queue_get_queue queue) len arr)
           = (err_code, event)"
    and "err_code \<noteq> CL_SUCCESS"
  shows "\<exists>fx'. gocl_kernel_run_in_device cl (Some priv) (Some dev) wait =
               Inr (Some (GoclEvent (Resolved_Error (GError err_code)) (Some queue) None None []),
                    fx')
             \<and> resolver_calls fx' = [(Resolve, Some (GError err_code))]"
proof -
  have "resolver_calls fx = []"
    using list_to_array_resolver_calls [of wait] assms(2) by simp
  with assms show ?thesis
    by (simp add: run_async_with_queue Let_def resolver_calls_append)
qed

theorem run_in_device_submission_error_witness:
  "gocl_device_get_default_queue device_with_queue = Some a_queue
   \<and> gocl_event_list_to_array [] = ((None, 0), [])
   \<and> clEnqueueNDRangeKernel failing_submission_driver
         (submission hello_priv (gocl_queue_get_queue a_queue) 0 None) = (5, 0)
   \<and> (5 :: cl_int) \<noteq> CL_SUCCESS
   \<and> (\<exists>fx'. gocl_kernel_run_in_device failing_submission_driver (Some hello_priv)
                (Some device_with_queue) [] =
               Inr (Some (GoclEvent (Resolved_Error (GError 5)) (Some a_queue) None None []), fx')
             \<and> resolver_calls fx' = [(Resolve, Some (GError 5))])"
proof -
  have q: "gocl_device_get_default_queue device_with_queue = Some a_queue"
    by (simp add: gocl_device_get_default_queue_def device_with_queue_def)
  have m: "gocl_event_list_to_array [] = ((None, 0), [])"
    by (rule list_to_array_empty)
  have e: "clEnqueueNDRangeKernel failing_submission_driver
         (submission hello_priv (gocl_queue_get_queue a_queue) 0 None) = (5, 0)"
    by (simp add: failing_submission_driver_def)
  have f: "(5 :: cl_int) \<noteq> CL_SUCCESS"
    by (simp add: CL_SUCCESS_def)
  from run_in_device_submission_error [OF q m e f] q m e f show ?thesis by simp
qed

text \<open>
  C2. The synchronous run is claimed to succeed if and only if both the submission
  and the wait succeeded. On the driver whose wait primitive fails, the code submits,
  waits, releases the handle and answers \<^verbatim>\<open>TRUE\<close>: the value of \<^verbatim>\<open>clWaitForEvents\<close> is
  never looked at.
\<close>

theorem run_in_device_sync_wait_failure:
  "clWaitForEvents failing_wait_driver [21] \<noteq> CL_SUCCESS
   \<and> gocl_kernel_run_in_device_sync failing_wait_driver hello_kernel (Some device_with_queue) []
       = (True,
          [EnqueueNDRangeKernel (submission hello_priv 31 0 None),
           WaitForEvents [21], ReleaseEvent 21])"
  by (simp add: hello_kernel_eq gocl_kernel_run_in_device_sync_def failing_wait_driver_def
      working_driver_def CL_SUCCESS_def device_with_queue_def a_queue_def
      gocl_device_get_default_queue_def gocl_queue_get_queue_def list_to_array_empty
      g_list_length_def gocl_error_check_opencl_internal_def)

text \<open>
  What decides the flag of the synchronous run: the presence of a default queue and
  the code of the submission, nothing else.
\<close>

lemma run_in_device_sync_flag:
  "fst (gocl_kernel_run_in_device_sync cl (Some priv) (Some dev) wait) =
     (case gocl_device_get_default_queue dev of
        None \<Rightarrow> False
      | Some queue \<Rightarrow>
          fst (clEnqueueNDRangeKernel cl
                 (submission priv (gocl_queue_get_queue queue) (g_list_length wait)
                    (fst (fst (gocl_event_list_to_array wait))))) = CL_SUCCESS)"
proof (cases "gocl_device_get_default_queue dev")
  case None
  then show ?thesis by (simp add: gocl_kernel_run_in_device_sync_def)
next
  case (Some queue)
  then show ?thesis by (simp add: run_sync_with_queue Let_def)
qed

text \<open>
  C3, as stated, fails: on a device without a default queue the asynchronous run
  returns \<^verbatim>\<open>NULL\<close>, not a token.
\<close>

theorem run_in_device_no_queue_counterexample:
  "gocl_kernel_run_in_device working_driver hello_kernel (Some device_without_queue) []
     = Inr (None, [IdleUnref None])"
  by (simp add: hello_kernel_eq run_async_without_queue gocl_device_get_default_queue_def
      device_without_queue_def list_to_array_empty)

text \<open>
  C3, amended. On a valid kernel and device, the asynchronous run returns a token
  exactly when the device has a default queue: then one submission is made and the
  token is Pending when the driver accepted it and Resolved-Error with the driver's
  code when it did not; without a default queue nothing is submitted and the call
  returns \<^verbatim>\<open>NULL\<close>.
\<close>

theorem run_in_device_token_iff_queue:
  "case gocl_device_get_default_queue dev of
     None \<Rightarrow>
       (\<exists>fx. gocl_kernel_run_in_device cl (Some priv) (Some dev) wait = Inr (None, fx)
             \<and> submissions fx = [])
   | Some queue \<Rightarrow>
       (\<exists>tok fx a. gocl_kernel_run_in_device cl (Some priv) (Some dev) wait = Inr (Some tok, fx)
             \<and> submissions fx = [a]
             \<and> ev_outcome tok =
                 (if fst (clEnqueueNDRangeKernel cl a) = CL_SUCCESS then Pending
                  else Resolved_Error (GError (fst (clEnqueueNDRangeKernel cl a)))))"
proof (cases "gocl_device_get_default_queue dev")
  case None
  then show ?thesis
    by (simp add: run_async_without_queue submissions_append list_to_array_submissions)
next
  case (Some queue)
  then show ?thesis
    by (simp add: run_async_with_queue Let_def submissions_append list_to_array_submissions)
qed



text \<open>
  C4. On a device with a default queue, each run function (synchronous and
  asynchronous) makes exactly one submission, and the global size it passes is absent
  (\<^verbatim>\<open>NULL\<close>) when the first slot of the stored vector is 0 and is the stored three-slot
  vector otherwise.
\<close>

theorem run_passes_global_size_or_null:
  assumes "gocl_device_get_default_queue dev = Some queue"
  shows "map global_work_size_arg
           (submissions (snd (gocl_kernel_run_in_device_sync cl (Some priv) (Some dev) wait)))
         = [if idx0 (global_work_size priv) = 0 then None else Some (global_work_size priv)]
       \<and> (\<exists>tok fx. gocl_kernel_run_in_device cl (Some priv) (Some dev) wait = Inr (tok, fx)
             \<and> map global_work_size_arg (submissions fx)
                 = [if idx0 (global_work_size priv) = 0 then None
                    else Some (global_work_size priv)])"
  using assms
  by (simp add: run_sync_with_queue run_async_with_queue Let_def submissions_append
      list_to_array_submissions submission_def)

theorem run_passes_global_size_or_null_witness:
  "gocl_device_get_default_queue device_with_queue = Some a_queue
   \<and> map global_work_size_arg
       (submissions (snd (gocl_kernel_run_in_device_sync working_driver (Some fresh_priv)
          (Some device_with_queue) []))) = [None]
   \<and> map global_work_size_arg
       (submissions (snd (gocl_kernel_run_in_device_sync working_driver (Some hello_priv)
          (Some device_with_queue) []))) = [Some \<lparr>idx0 = 32, idx1 = 32, idx2 = 0\<rparr>]
   \<and> (\<exists>tok fx. gocl_kernel_run_in_device working_driver (Some fresh_priv)
          (Some device_with_queue) [] = Inr (tok, fx)
        \<and> map global_work_size_arg (submissions fx) = [None])
   \<and> (\<exists>tok fx. gocl_kernel_run_in_device working_driver (Some hello_priv)
          (Some device_with_queue) [] = Inr (tok, fx)
        \<and> map global_work_size_arg (submissions fx) = [Some \<lparr>idx0 = 32, idx1 = 32, idx2 = 0\<rparr>])"
  using run_passes_global_size_or_null [OF with_queue, of working_driver fresh_priv "[]"]
    run_passes_global_size_or_null [OF with_queue, of working_driver hello_priv "[]"]
    with_queue
  by (simp add: fresh_priv_def hello_priv_def)

text \<open>
  C5. The work-dimension setter, given 0 or a value above 3, reports the violated
  condition and leaves the kernel as it was; given a value from 1 to 3 it stores
  exactly that value, changes nothing else and reports nothing.
\<close>

theorem set_work_dimension_checked:
  "(wd = 0 \<or> 3 < wd \<longrightarrow>
      gocl_kernel_set_work_dimension (Some priv) wd
        = (Some priv, [Critical ''work_dim > 0 && work_dim <= 3'']))
   \<and> (1 \<le> wd \<and> wd \<le> 3 \<longrightarrow>
      gocl_kernel_set_work_dimension (Some priv) wd = (Some (priv\<lparr>work_dim := wd\<rparr>), []))"
proof -
  have a: "3 < wd \<Longrightarrow> \<not> wd \<le> 3" by (simp add: not_le)
  have b: "1 \<le> wd \<Longrightarrow> 0 < wd"
    by (simp add: word_le_nat_alt word_less_nat_alt)
  show ?thesis
    by (auto simp: gocl_kernel_set_work_dimension_def a b)
qed


theorem set_work_dimension_checked_witness:
  "((0 :: guint8) = 0 \<or> 3 < (0 :: guint8))
   \<and> gocl_kernel_set_work_dimension (Some hello_priv) 0
       = (Some hello_priv, [Critical ''work_dim > 0 && work_dim <= 3''])
   \<and> ((4 :: guint8) = 0 \<or> 3 < (4 :: guint8))
   \<and> gocl_kernel_set_work_dimension (Some hello_priv) 4
       = (Some hello_priv, [Critical ''work_dim > 0 && work_dim <= 3''])
   \<and> (1 \<le> (3 :: guint8) \<and> (3 :: guint8) \<le> 3)
   \<and> gocl_kernel_set_work_dimension (Some hello_priv) 3
       = (Some (hello_priv\<lparr>work_dim := 3\<rparr>), [])"
  using set_work_dimension_checked [of 0 hello_priv]
    set_work_dimension_checked [of 4 hello_priv]
    set_work_dimension_checked [of 3 hello_priv]
  by simp

text \<open>
  C6. A kernel that has just been created has work dimension 1 and all three global
  and all three local work-size slots equal to 0. The instance initialiser itself
  clears only the first three bytes of each array (see \<open>init_keeps_upper_slots\<close>);
  the slots are 0 because the memory it starts from is zero-filled.
\<close>

theorem fresh_kernel_defaults:
  assumes "gocl_kernel_new cl p n = Some priv"
  shows "work_dim priv = 1
       \<and> global_work_size priv = \<lparr>idx0 = 0, idx1 = 0, idx2 = 0\<rparr>
       \<and> local_work_size priv = \<lparr>idx0 = 0, idx1 = 0, idx2 = 0\<rparr>"
  using assms
  by (auto simp: gocl_kernel_new_def gocl_kernel_initable_init_def gocl_kernel_init_def
      zero_filled_def memset_zero_of_zero [unfolded zero_WorkSize_def] zero_WorkSize_def
      Let_def split: prod.splits if_splits)

theorem fresh_kernel_defaults_witness:
  "gocl_kernel_new working_driver 41 ''my_kernel'' = Some fresh_priv
   \<and> work_dim fresh_priv = 1
   \<and> global_work_size fresh_priv = \<lparr>idx0 = 0, idx1 = 0, idx2 = 0\<rparr>
   \<and> local_work_size fresh_priv = \<lparr>idx0 = 0, idx1 = 0, idx2 = 0\<rparr>"
proof -
  have k: "gocl_kernel_new working_driver 41 ''my_kernel'' = Some fresh_priv"
    using fresh_kernel_eq by (simp add: fresh_kernel_def)
  from fresh_kernel_defaults [OF k] k show ?thesis by simp
qed

text \<open>
  C7. With an empty (or \<^verbatim>\<open>NULL\<close>) list of events to wait for, the one submission each
  run function makes passes the count 0 and no array.
\<close>

theorem run_empty_wait_list:
  assumes "gocl_device_get_default_queue dev = Some queue"
  shows "map (\<lambda>a. (num_events_in_wait_list a, event_wait_list_arg a))
           (submissions (snd (gocl_kernel_run_in_device_sync cl (Some priv) (Some dev) [])))
         = [(0, None)]
       \<and> (\<exists>tok fx. gocl_kernel_run_in_device cl (Some priv) (Some dev) [] = Inr (tok, fx)
             \<and> map (\<lambda>a. (num_events_in_wait_list a, event_wait_list_arg a)) (submissions fx)
                 = [(0, None)])"
  using assms
  by (simp add: run_sync_with_queue run_async_with_queue Let_def list_to_array_empty
      g_list_length_def submission_def)

theorem run_empty_wait_list_witness:
  "gocl_device_get_default_queue device_with_queue = Some a_queue
   \<and> map (\<lambda>a. (num_events_in_wait_list a, event_wait_list_arg a))
       (submissions (snd (gocl_kernel_run_in_device_sync working_driver (Some hello_priv)
          (Some device_with_queue) []))) = [(0, None)]
   \<and> (\<exists>tok fx. gocl_kernel_run_in_device working_driver (Some hello_priv)
          (Some device_with_queue) [] = Inr (tok, fx)
        \<and> map (\<lambda>a. (num_events_in_wait_list a, event_wait_list_arg a)) (submissions fx)
            = [(0, None)])"
  using run_empty_wait_list [OF with_queue, of working_driver hello_priv] with_queue
  by simp

text \<open>
  C8, as stated, fails: the size is the \<^verbatim>\<open>gsize\<close> product \<^verbatim>\<open>sizeof (cl_uint) *
  num_elements\<close>, and the function takes any \<^verbatim>\<open>gsize\<close> as element count. With
  \<open>2 ^ 62\<close> elements the product wraps to 0: the primitive is handed a size of 0
  bytes, not four times the count, and the call reports success.
\<close>

theorem set_argument_int32_size_counterexample:
  "gocl_kernel_set_argument_int32 working_driver (Some hello_priv) 1 (2 ^ 62) 77
     = (True, [SetKernelArg 11 1 0 77])
   \<and> unat (sizeof_cl_uint * 2 ^ 62) \<noteq> 4 * unat (2 ^ 62 :: gsize)"
  by (simp add: gocl_kernel_set_argument_int32_def gocl_kernel_set_argument_def
      gocl_error_check_opencl_internal_def sizeof_cl_uint_def working_driver_def
      hello_priv_def)

text \<open>
  C8, amended. Binding an int32 argument of \<open>n\<close> elements makes one call of the native
  argument-setting primitive, with the caller's index and buffer and with the size
  \<^verbatim>\<open>sizeof (cl_uint) * n\<close> computed in \<^verbatim>\<open>gsize\<close> arithmetic: four times \<open>n\<close> modulo
  \<open>2 ^ 64\<close> bytes, which is exactly four times \<open>n\<close> whenever \<open>n\<close> is below \<open>2 ^ 62\<close>.
\<close>

theorem set_argument_int32_size_wraps:
  "gocl_kernel_set_argument_int32 cl (Some priv) index n buffer
     = (clSetKernelArg cl (kernel priv) index (sizeof_cl_uint * n) buffer = CL_SUCCESS,
        [SetKernelArg (kernel priv) index (sizeof_cl_uint * n) buffer])
   \<and> unat (sizeof_cl_uint * n) = (4 * unat n) mod 2 ^ 64
   \<and> (unat n < 2 ^ 62 \<longrightarrow> unat (sizeof_cl_uint * n) = 4 * unat n)"
proof -
  have m: "unat (4 * n) = (4 * unat n) mod 2 ^ 64"
    using unat_word_ariths(2) [of 4 n] by simp
  have "unat (4 * n) = 4 * unat n" if "unat n < 2 ^ 62"
    using that m by simp
  with m show ?thesis
    by (simp add: gocl_kernel_set_argument_int32_def gocl_kernel_set_argument_def
        gocl_error_check_opencl_internal_def sizeof_cl_uint_def)
qed

theorem set_argument_int32_size_wraps_witness:
  "gocl_kernel_set_argument_int32 working_driver (Some hello_priv) 1 1 77
     = (True, [SetKernelArg 11 1 4 77])
   \<and> unat (1 :: gsize) < 2 ^ 62 \<and> unat (sizeof_cl_uint * 1) = 4 * unat (1 :: gsize)"
  using set_argument_int32_size_wraps [of working_driver hello_priv 1 1 77]
  by (simp add: working_driver_def hello_priv_def sizeof_cl_uint_def)


text \<open>
  C9. Two calls in a row of the same work-size setter leave exactly the three
  arguments of the second call in the vector (and nothing else changed), and the next
  run, synchronous or asynchronous, submits that vector (or \<^verbatim>\<open>NULL\<close> when its first
  slot is 0). This holds whether or not the two triples differ.
\<close>

theorem work_size_setter_last_wins:
  assumes "gocl_device_get_default_queue dev = Some queue"
  shows "gocl_kernel_set_global_work_size
           (fst (gocl_kernel_set_global_work_size (Some priv) a1 a2 a3)) b1 b2 b3
         = (Some (priv\<lparr>global_work_size := \<lparr>idx0 = b1, idx1 = b2, idx2 = b3\<rparr>\<rparr>), [])
       \<and> gocl_kernel_set_local_work_size
           (fst (gocl_kernel_set_local_work_size (Some priv) a1 a2 a3)) b1 b2 b3
         = (Some (priv\<lparr>local_work_size := \<lparr>idx0 = b1, idx1 = b2, idx2 = b3\<rparr>\<rparr>), [])
       \<and> map global_work_size_arg
           (submissions (snd (gocl_kernel_run_in_device_sync cl
              (fst (gocl_kernel_set_global_work_size
                      (fst (gocl_kernel_set_global_work_size (Some priv) a1 a2 a3)) b1 b2 b3))
              (Some dev) wait)))
         = [if b1 = 0 then None else Some \<lparr>idx0 = b1, idx1 = b2, idx2 = b3\<rparr>]
       \<and> map local_work_size_arg
           (submissions (snd (gocl_kernel_run_in_device_sync cl
              (fst (gocl_kernel_set_local_work_size
                      (fst (gocl_kernel_set_local_work_size (Some priv) a1 a2 a3)) b1 b2 b3))
              (Some dev) wait)))
         = [if b1 = 0 then None else Some \<lparr>idx0 = b1, idx1 = b2, idx2 = b3\<rparr>]
       \<and> (\<exists>tok fx. gocl_kernel_run_in_device cl
              (fst (gocl_kernel_set_global_work_size
                      (fst (gocl_kernel_set_global_work_size (Some priv) a1 a2 a3)) b1 b2 b3))
              (Some dev) wait = Inr (tok, fx)
            \<and> map global_work_size_arg (submissions fx)
                = [if b1 = 0 then None else Some \<lparr>idx0 = b1, idx1 = b2, idx2 = b3\<rparr>])
       \<and> (\<exists>tok fx. gocl_kernel_run_in_device cl
              (fst (gocl_kernel_set_local_work_size
                      (fst (gocl_kernel_set_local_work_size (Some priv) a1 a2 a3)) b1 b2 b3))
              (Some dev) wait = Inr (tok, fx)
            \<and> map local_work_size_arg (submissions fx)
                = [if b1 = 0 then None else Some \<lparr>idx0 = b1, idx1 = b2, idx2 = b3\<rparr>])"
proof -
  have g: "gocl_kernel_set_global_work_size
           (fst (gocl_kernel_set_global_work_size (Some priv) a1 a2 a3)) b1 b2 b3
         = (Some (priv\<lparr>global_work_size := \<lparr>idx0 = b1, idx1 = b2, idx2 = b3\<rparr>\<rparr>), [])"
    by (simp add: gocl_kernel_set_global_work_size_def)
  have l: "gocl_kernel_set_local_work_size
           (fst (gocl_kernel_set_local_work_size (Some priv) a1 a2 a3)) b1 b2 b3
         = (Some (priv\<lparr>local_work_size := \<lparr>idx0 = b1, idx1 = b2, idx2 = b3\<rparr>\<rparr>), [])"
    by (simp add: gocl_kernel_set_local_work_size_def)
  show ?thesis
    unfolding g l using assms
    by (simp add: run_sync_with_queue run_async_with_queue Let_def submissions_append
        list_to_array_submissions submission_def)
qed

theorem work_size_setter_last_wins_witness:
  "gocl_device_get_default_queue device_with_queue = Some a_queue
   \<and> gocl_kernel_set_global_work_size
       (fst (gocl_kernel_set_global_work_size (Some fresh_priv) 64 8 1)) 32 32 0
     = (Some (fresh_priv\<lparr>global_work_size := \<lparr>idx0 = 32, idx1 = 32, idx2 = 0\<rparr>\<rparr>), [])
   \<and> map global_work_size_arg
       (submissions (snd (gocl_kernel_run_in_device_sync working_driver
          (fst (gocl_kernel_set_global_work_size
                  (fst (gocl_kernel_set_global_work_size (Some fresh_priv) 64 8 1)) 32 32 0))
          (Some device_with_queue) [])))
     = [Some \<lparr>idx0 = 32, idx1 = 32, idx2 = 0\<rparr>]
   \<and> map local_work_size_arg
       (submissions (snd (gocl_kernel_run_in_device_sync working_driver
          (fst (gocl_kernel_set_local_work_size
                  (fst (gocl_kernel_set_local_work_size (Some fresh_priv) 64 8 1)) 32 32 0))
          (Some device_with_queue) [])))
     = [Some \<lparr>idx0 = 32, idx1 = 32, idx2 = 0\<rparr>]"
proof -
  note t = work_size_setter_last_wins
    [OF with_queue, of fresh_priv 64 8 1 32 32 0 working_driver "[]"]
  have z: "(32 :: gsize) \<noteq> 0" by simp
  from t have 1: "gocl_kernel_set_global_work_size
       (fst (gocl_kernel_set_global_work_size (Some fresh_priv) 64 8 1)) 32 32 0
     = (Some (fresh_priv\<lparr>global_work_size := \<lparr>idx0 = 32, idx1 = 32, idx2 = 0\<rparr>\<rparr>), [])"
    by (rule conjunct1)
  have 2: "map global_work_size_arg
       (submissions (snd (gocl_kernel_run_in_device_sync working_driver
          (fst (gocl_kernel_set_global_work_size
                  (fst (gocl_kernel_set_global_work_size (Some fresh_priv) 64 8 1)) 32 32 0))
          (Some device_with_queue) [])))
     = [Some \<lparr>idx0 = 32, idx1 = 32, idx2 = 0\<rparr>]"
    using t [THEN conjunct2, THEN conjunct2, THEN conjunct1] by (simp only: z if_False)
  have 3: "map local_work_size_arg
       (submissions (snd (gocl_kernel_run_in_device_sync working_driver
          (fst (gocl_kernel_set_local_work_size
                  (fst (gocl_kernel_set_local_work_size (Some fresh_priv) 64 8 1)) 32 32 0))
          (Some device_with_queue) [])))
     = [Some \<lparr>idx0 = 32, idx1 = 32, idx2 = 0\<rparr>]"
    using t [THEN conjunct2, THEN conjunct2, THEN conjunct2, THEN conjunct1]
    by (simp only: z if_False)
  from with_queue 1 2 3 show ?thesis by (intro conjI)
qed

text \<open>
  C10. When the submission succeeds, the event built around the native handle holds
  its resolver; the token the asynchronous run returns is that event with the resolver
  taken out, still Pending, and no resolver was invoked during the call.
\<close>

theorem run_in_device_success_steals_resolver:
  assumes "gocl_device_get_default_queue dev = Some queue"
    and "gocl_event_list_to_array wait = ((arr, len), fx)"
    and "clEnqueueNDRangeKernel cl (submission priv (gocl_queue_get_queue queue) len arr)
           = (CL_SUCCESS, event)"
  shows "ev_resolver_func (gocl_event_set_event_wait_list
            (gocl_event_new (Some queue) (Some event)) wait) = Some Resolve
       \<and> (\<exists>tok fx'. gocl_kernel_run_in_device cl (Some priv) (Some dev) wait
                        = Inr (Some tok, fx')
             \<and> tok = snd (gocl_event_steal_resolver_func (gocl_event_set_event_wait_list
                             (gocl_event_new (Some queue) (Some event)) wait))
             \<and> ev_resolver_func tok = None
             \<and> ev_outcome tok = Pending
             \<and> resolver_calls fx' = [])"
proof -
  have "resolver_calls fx = []"
    using list_to_array_resolver_calls [of wait] assms(2) by simp
  with assms show ?thesis
    by (simp add: run_async_with_queue Let_def resolver_calls_append gocl_event_new_def
        gocl_event_set_event_wait_list_def gocl_event_steal_resolver_func_def)
qed

theorem run_in_device_success_steals_resolver_witness:
  "gocl_device_get_default_queue device_with_queue = Some a_queue
   \<and> gocl_event_list_to_array [] = ((None, 0), [])
   \<and> clEnqueueNDRangeKernel working_driver
         (submission hello_priv (gocl_queue_get_queue a_queue) 0 None) = (CL_SUCCESS, 21)
   \<and> (\<exists>tok fx'. gocl_kernel_run_in_device working_driver (Some hello_priv)
          (Some device_with_queue) [] = Inr (Some tok, fx')
        \<and> tok = GoclEvent Pending (Some a_queue) (Some 21) None []
        \<and> ev_resolver_func tok = None
        \<and> resolver_calls fx' = [])"
proof -
  have e: "clEnqueueNDRangeKernel working_driver
         (submission hello_priv (gocl_queue_get_queue a_queue) 0 None) = (CL_SUCCESS, 21)"
    by (simp add: working_driver_def)
  from run_in_device_success_steals_resolver [OF with_queue list_to_array_empty e]
    with_queue list_to_array_empty e
  show ?thesis
    by (simp add: gocl_event_new_def gocl_event_set_event_wait_list_def
        gocl_event_steal_resolver_func_def)
qed


end
